theory Spec2Isabelle
  imports Main "HOL-Library.Word"
begin

unbundle bit_operations_syntax

section \<open>The control-request layer of libuvc (ctrl.cpp)\<close>

text \<open>
  The file \<^verbatim>\<open>ctrl.cpp\<close> holds seven functions. Six of them build the arguments of
  one USB control transfer, hand them to \<^verbatim>\<open>libusb_control_transfer\<close> and map its
  \<^verbatim>\<open>int\<close> result; the seventh never reaches the transport.

  Values of C type \<^verbatim>\<open>int\<close> (transfer results, \<^verbatim>\<open>uvc_error\<close> codes, enumerators,
  promoted operands of \<^verbatim>\<open><<\<close> and \<^verbatim>\<open>|\<close>) are HOL integers: no operation of the file
  can leave the 32-bit range on them. The narrowing conversions of the call
  (\<^verbatim>\<open>uint8_t\<close> request fields, \<^verbatim>\<open>uint16_t\<close> \<^verbatim>\<open>wValue\<close>, \<^verbatim>\<open>wIndex\<close> and \<^verbatim>\<open>wLength\<close>) are
  \<open>word_of_int\<close>, which reduces modulo the width as C does. A cast between \<^verbatim>\<open>int\<close>
  and an enumeration type keeps the number.
\<close>

type_synonym uint8_t = "8 word"
type_synonym uint16_t = "16 word"

subsection \<open>What the two headers provide\<close>

text \<open>
  \<^verbatim>\<open>libuvc.h\<close> and \<^verbatim>\<open>libuvc/libuvc_internal.h\<close> are included by the file but are not
  part of the sources at hand. The enumerators and macros the file takes from them
  are therefore parameters of every function below, collected in one record.
  \<open>power_modes\<close> lists the enumerators of \<^verbatim>\<open>enum uvc_device_power_mode\<close>.
\<close>

record libuvc_h =
  REQ_TYPE_SET :: int
  REQ_TYPE_GET :: int
  UVC_SET_CUR :: int
  UVC_GET_LEN :: int
  UVC_VC_VIDEO_POWER_MODE_CONTROL :: int
  UVC_VC_REQUEST_ERROR_CODE_CONTROL :: int
  UVC_SUCCESS :: int
  UVC_ERROR_NOT_SUPPORTED :: int
  power_modes :: "int list"

text \<open>
  The part of the device handle that the file reads: \<^verbatim>\<open>devh->usb_devh\<close> (an opaque
  libusb handle) and \<^verbatim>\<open>devh->info->ctrl_if.bInterfaceNumber\<close>.
\<close>

record uvc_control_interface =
  bInterfaceNumber :: uint8_t

record uvc_device_info =
  ctrl_if :: uvc_control_interface

record uvc_device_handle =
  usb_devh :: nat
  info :: uvc_device_info

text \<open>
  Modelled from the spec: the macro \<^verbatim>\<open>SW_TO_SHORT\<close> of \<^verbatim>\<open>libuvc_internal.h\<close> is
  missing; the specification says that the two bytes of a GET_LEN response are decoded
  as a little-endian unsigned 16-bit length.
\<close>

definition SW_TO_SHORT :: "uint8_t list \<Rightarrow> int" where
  "SW_TO_SHORT p = uint (p ! 0) + 256 * uint (p ! 1)"

subsection \<open>The transfer primitive\<close>

text \<open>
  One call of \<^verbatim>\<open>libusb_control_transfer\<close>: its eight arguments, the buffer given by
  its contents at the time of the call.
\<close>

record control_transfer =
  dev_handle :: nat
  bmRequestType :: uint8_t
  bRequest :: uint8_t
  wValue :: uint16_t
  wIndex :: uint16_t
  data :: "uint8_t list"
  wLength :: uint16_t
  timeout :: nat

text \<open>
  The transport is external. Its behaviour is an arbitrary function \<open>prim\<close> of the
  call and of a device state: it answers with the \<^verbatim>\<open>int\<close> result and the bytes it
  stored at the start of the buffer, and moves the device to a new state. The world
  the functions run in is the device state together with the list of all transfers
  made so far, oldest first, each with the call, the \<^verbatim>\<open>int\<close> it returned and the
  buffer as it was left.
\<close>

type_synonym 's transport = "control_transfer \<Rightarrow> 's \<Rightarrow> (int \<times> uint8_t list) \<times> 's"

record transfer_event =
  call :: control_transfer
  answer :: int
  buffer :: "uint8_t list"

record 's usb_world =
  device :: 's
  transfers :: "transfer_event list"

text \<open>Bytes stored by the transport replace the start of the buffer; the rest stays.\<close>

definition stored :: "uint8_t list \<Rightarrow> uint8_t list \<Rightarrow> uint8_t list" where
  "stored ws buf = take (length buf) ws @ drop (length ws) buf"

definition libusb_control_transfer ::
  "'s transport \<Rightarrow> control_transfer \<Rightarrow> 's usb_world \<Rightarrow> (int \<times> uint8_t list) \<times> 's usb_world" where
  "libusb_control_transfer prim rq w =
     (case prim rq (device w) of
        ((ret, ws), s') \<Rightarrow>
          ((ret, stored ws (data rq)),
           \<lparr>device = s',
            transfers = transfers w @
              [\<lparr>call = rq, answer = ret, buffer = stored ws (data rq)\<rparr>]\<rparr>))"

definition CTRL_TIMEOUT_MILLIS :: nat where
  "CTRL_TIMEOUT_MILLIS = 0"

subsection \<open>Generic controls\<close>

text \<open>
  \<^verbatim>\<open>uvc_get_ctrl_len\<close>. The local array \<^verbatim>\<open>buf\<close> is not initialised: its two bytes
  before the transfer are the argument \<open>buf\<close>.
\<close>

definition uvc_get_ctrl_len ::
  "libuvc_h \<Rightarrow> 's transport \<Rightarrow> uvc_device_handle \<Rightarrow> uint8_t \<Rightarrow> uint8_t \<Rightarrow>
     uint8_t \<times> uint8_t \<Rightarrow> 's usb_world \<Rightarrow> int \<times> 's usb_world" where
  "uvc_get_ctrl_len h prim devh unit ctrl buf w =
     (case libusb_control_transfer prim
        \<lparr>dev_handle = usb_devh devh,
         bmRequestType = word_of_int (REQ_TYPE_GET h),
         bRequest = word_of_int (UVC_GET_LEN h),
         wValue = word_of_int (push_bit 8 (uint ctrl)),
         wIndex = word_of_int
           (push_bit 8 (uint unit) OR uint (bInterfaceNumber (ctrl_if (info devh)))),
         data = [fst buf, snd buf],
         wLength = 2,
         timeout = CTRL_TIMEOUT_MILLIS\<rparr> w of
        ((ret, buf'), w') \<Rightarrow>
          if ret < 0 then (ret, w')
          else (SW_TO_SHORT buf' mod 65536, w'))"

text \<open>
  \<^verbatim>\<open>uvc_get_ctrl\<close> and \<^verbatim>\<open>uvc_set_ctrl\<close>. The caller's buffer \<^verbatim>\<open>data\<close> is passed by its
  contents and returned as the transfer left it.
\<close>

definition uvc_get_ctrl ::
  "libuvc_h \<Rightarrow> 's transport \<Rightarrow> uvc_device_handle \<Rightarrow> uint8_t \<Rightarrow> uint8_t \<Rightarrow>
     uint8_t list \<Rightarrow> int \<Rightarrow> int \<Rightarrow> 's usb_world \<Rightarrow> (int \<times> uint8_t list) \<times> 's usb_world" where
  "uvc_get_ctrl h prim devh unit ctrl dat len req_code w =
     libusb_control_transfer prim
       \<lparr>dev_handle = usb_devh devh,
        bmRequestType = word_of_int (REQ_TYPE_GET h),
        bRequest = word_of_int req_code,
        wValue = word_of_int (push_bit 8 (uint ctrl)),
        wIndex = word_of_int
          (push_bit 8 (uint unit) OR uint (bInterfaceNumber (ctrl_if (info devh)))),
        data = dat,
        wLength = word_of_int len,
        timeout = CTRL_TIMEOUT_MILLIS\<rparr> w"

definition uvc_set_ctrl ::
  "libuvc_h \<Rightarrow> 's transport \<Rightarrow> uvc_device_handle \<Rightarrow> uint8_t \<Rightarrow> uint8_t \<Rightarrow>
     uint8_t list \<Rightarrow> int \<Rightarrow> 's usb_world \<Rightarrow> (int \<times> uint8_t list) \<times> 's usb_world" where
  "uvc_set_ctrl h prim devh unit ctrl dat len w =
     libusb_control_transfer prim
       \<lparr>dev_handle = usb_devh devh,
        bmRequestType = word_of_int (REQ_TYPE_SET h),
        bRequest = word_of_int (UVC_SET_CUR h),
        wValue = word_of_int (push_bit 8 (uint ctrl)),
        wIndex = word_of_int
          (push_bit 8 (uint unit) OR uint (bInterfaceNumber (ctrl_if (info devh)))),
        data = dat,
        wLength = word_of_int len,
        timeout = CTRL_TIMEOUT_MILLIS\<rparr> w"

subsection \<open>Interface controls\<close>

text \<open>
  The three getters write through a pointer of the caller. The object it points to is
  an argument (\<open>error_code\<close>, \<open>mode\<close>: the number it holds before the call) and
  the second component of the result (the number it holds after the call).
\<close>

definition uvc_vc_get_error_code ::
  "libuvc_h \<Rightarrow> 's transport \<Rightarrow> uvc_device_handle \<Rightarrow> int \<Rightarrow> int \<Rightarrow> 's usb_world \<Rightarrow>
     int \<times> int \<times> 's usb_world" where
  "uvc_vc_get_error_code h prim devh error_code req_code w =
     (let error_char = (0 :: uint8_t) in
      case libusb_control_transfer prim
        \<lparr>dev_handle = usb_devh devh,
         bmRequestType = word_of_int (REQ_TYPE_GET h),
         bRequest = word_of_int req_code,
         wValue = word_of_int (push_bit 8 (UVC_VC_REQUEST_ERROR_CODE_CONTROL h)),
         wIndex = word_of_int (uint (bInterfaceNumber (ctrl_if (info devh)))),
         data = [error_char],
         wLength = 1,
         timeout = CTRL_TIMEOUT_MILLIS\<rparr> w of
        ((ret, buf'), w') \<Rightarrow>
          if ret = 1 then (UVC_SUCCESS h, uint (buf' ! 0), w')
          else (ret, error_code, w'))"

text \<open>
  \<^verbatim>\<open>uvc_vs_get_error_code\<close>: the transfer is under \<^verbatim>\<open>#if 0\<close>; what is compiled is the
  \<^verbatim>\<open>#else\<close> branch.
\<close>

definition uvc_vs_get_error_code ::
  "libuvc_h \<Rightarrow> uvc_device_handle \<Rightarrow> int \<Rightarrow> int \<Rightarrow> 's usb_world \<Rightarrow>
     int \<times> int \<times> 's usb_world" where
  "uvc_vs_get_error_code h devh error_code req_code w =
     (let ret = UVC_ERROR_NOT_SUPPORTED h in (ret, error_code, w))"

text \<open>
  \<^verbatim>\<open>uvc_get_power_mode\<close>. The local \<^verbatim>\<open>mode_char\<close> is not initialised: its content before
  the transfer is the argument \<open>mode_char\<close>.
\<close>

definition uvc_get_power_mode ::
  "libuvc_h \<Rightarrow> 's transport \<Rightarrow> uvc_device_handle \<Rightarrow> int \<Rightarrow> uint8_t \<Rightarrow> int \<Rightarrow>
     's usb_world \<Rightarrow> int \<times> int \<times> 's usb_world" where
  "uvc_get_power_mode h prim devh mode mode_char req_code w =
     (case libusb_control_transfer prim
        \<lparr>dev_handle = usb_devh devh,
         bmRequestType = word_of_int (REQ_TYPE_GET h),
         bRequest = word_of_int req_code,
         wValue = word_of_int (push_bit 8 (UVC_VC_VIDEO_POWER_MODE_CONTROL h)),
         wIndex = word_of_int (uint (bInterfaceNumber (ctrl_if (info devh)))),
         data = [mode_char],
         wLength = 1,
         timeout = CTRL_TIMEOUT_MILLIS\<rparr> w of
        ((ret, buf'), w') \<Rightarrow>
          if ret = 1 then (UVC_SUCCESS h, uint (buf' ! 0), w')
          else (ret, mode, w'))"

definition uvc_set_power_mode ::
  "libuvc_h \<Rightarrow> 's transport \<Rightarrow> uvc_device_handle \<Rightarrow> int \<Rightarrow> 's usb_world \<Rightarrow>
     int \<times> 's usb_world" where
  "uvc_set_power_mode h prim devh mode w =
     (let mode_char = (word_of_int mode :: uint8_t) in
      case libusb_control_transfer prim
        \<lparr>dev_handle = usb_devh devh,
         bmRequestType = word_of_int (REQ_TYPE_SET h),
         bRequest = word_of_int (UVC_SET_CUR h),
         wValue = word_of_int (push_bit 8 (UVC_VC_VIDEO_POWER_MODE_CONTROL h)),
         wIndex = word_of_int (uint (bInterfaceNumber (ctrl_if (info devh)))),
         data = [mode_char],
         wLength = 1,
         timeout = CTRL_TIMEOUT_MILLIS\<rparr> w of
        ((ret, buf'), w') \<Rightarrow>
          if ret = 1 then (UVC_SUCCESS h, w') else (ret, w'))"

subsection \<open>Concrete inputs\<close>

text \<open>
  For evaluation at concrete inputs: the numbers that the headers of libuvc give to
  the names above (request types and codes and control selectors of the UVC class
  specification, libusb's error numbering for \<^verbatim>\<open>uvc_error\<close>, and the two enumerators
  \<^verbatim>\<open>UVC_VC_VIDEO_POWER_MODE_FULL\<close> and \<^verbatim>\<open>UVC_VC_VIDEO_POWER_MODE_DEVICE_DEPENDENT\<close>);
  a device handle on control interface 0; a transport that answers every call with
  the same result and bytes; and a world in which no transfer has been made.
\<close>

definition libuvc_headers :: libuvc_h where
  "libuvc_headers =
     \<lparr>REQ_TYPE_SET = 0x21, REQ_TYPE_GET = 0xa1,
      UVC_SET_CUR = 0x01, UVC_GET_LEN = 0x85,
      UVC_VC_VIDEO_POWER_MODE_CONTROL = 0x01,
      UVC_VC_REQUEST_ERROR_CODE_CONTROL = 0x02,
      UVC_SUCCESS = 0, UVC_ERROR_NOT_SUPPORTED = - 12,
      power_modes = [0x0b, 0x1b]\<rparr>"

definition camera :: uvc_device_handle where
  "camera = \<lparr>usb_devh = 1, info = \<lparr>ctrl_if = \<lparr>bInterfaceNumber = 0\<rparr>\<rparr>\<rparr>"

definition answering :: "int \<Rightarrow> uint8_t list \<Rightarrow> unit transport" where
  "answering ret ws rq s = ((ret, ws), s)"

definition idle :: "unit usb_world" where
  "idle = \<lparr>device = (), transfers = []\<rparr>"

lemmas concrete_inputs =
  libuvc_headers_def camera_def answering_def idle_def

section \<open>Auxiliary facts\<close>


text \<open>The wrapper of the transport, with the components of the answer spelled out.\<close>

lemma libusb_control_transfer_eq:
  "libusb_control_transfer prim rq w =
     ((fst (fst (prim rq (device w))), stored (snd (fst (prim rq (device w)))) (data rq)),
      \<lparr>device = snd (prim rq (device w)),
       transfers = transfers w @
         [\<lparr>call = rq, answer = fst (fst (prim rq (device w))),
           buffer = stored (snd (fst (prim rq (device w)))) (data rq)\<rparr>]\<rparr>)"
  by (simp add: libusb_control_transfer_def split: prod.splits)

text \<open>The narrowing of the promoted \<^verbatim>\<open>int\<close> expressions to 16 bits, bit by bit.\<close>

lemma shifted_selector:
  "(word_of_int (push_bit 8 k) :: uint16_t) = push_bit 8 (word_of_int k)"
  by (rule bit_word_eqI) (auto simp add: bit_simps)

lemma shifted_byte:
  "(word_of_int (push_bit 8 (uint (c :: uint8_t))) :: uint16_t) = push_bit 8 (ucast c)"
  by (rule bit_word_eqI) (auto simp add: bit_simps)

lemma unit_and_interface:
  "(word_of_int (push_bit 8 (uint (u :: uint8_t)) OR uint (i :: uint8_t)) :: uint16_t) =
     push_bit 8 (ucast u) OR ucast i"
  by (rule bit_word_eqI) (auto simp add: bit_simps)

lemma interface_alone:
  "(word_of_int (uint (i :: uint8_t)) :: uint16_t) = ucast i"
  by (rule bit_word_eqI) (simp add: bit_simps)

lemma high_byte_clear: "drop_bit 8 (ucast (i :: uint8_t) :: uint16_t) = 0"
  by (rule bit_word_eqI) (auto simp add: bit_simps dest: bit_imp_le_length)




text \<open>
  The example of the specification: unit 5 on interface 0, selector 9, asked for its
  current value (GET_CUR, \<open>0x81\<close>).
\<close>

lemma unit_5_selector_9:
  "wValue (call (last (transfers (snd
     (uvc_get_ctrl libuvc_headers (answering 1 [0]) camera 5 9 [0] 1 0x81 idle))))) = 0x0900 \<and>
   wIndex (call (last (transfers (snd
     (uvc_get_ctrl libuvc_headers (answering 1 [0]) camera 5 9 [0] 1 0x81 idle))))) = 0x0500"
  by (simp add: uvc_get_ctrl_def libusb_control_transfer_eq concrete_inputs)

text \<open>
  What the three interface controls return, in terms of the answer of their transfer:
  \<^verbatim>\<open>UVC_SUCCESS\<close> for the answer 1 and the answer itself otherwise.
\<close>

lemma interface_controls_return:
  "fst (uvc_vc_get_error_code h prim devh error_code req_code w) =
     (let e = last (transfers (snd (snd
        (uvc_vc_get_error_code h prim devh error_code req_code w))))
      in if answer e = 1 then UVC_SUCCESS h else answer e)"
  "fst (uvc_get_power_mode h prim devh mode mode_char req_code w) =
     (let e = last (transfers (snd (snd
        (uvc_get_power_mode h prim devh mode mode_char req_code w))))
      in if answer e = 1 then UVC_SUCCESS h else answer e)"
  "fst (uvc_set_power_mode h prim devh mode w) =
     (let e = last (transfers (snd (uvc_set_power_mode h prim devh mode w)))
      in if answer e = 1 then UVC_SUCCESS h else answer e)"
  by (simp_all add: uvc_vc_get_error_code_def uvc_get_power_mode_def uvc_set_power_mode_def
      libusb_control_transfer_eq Let_def)

section \<open>Properties\<close>

text \<open>
  In the statements below, \<open>w\<close> is the world before the call and \<open>w'\<close> the world
  after it; \<open>transfers w' = transfers w @ [e]\<close> says that the call made exactly one
  transfer, \<open>e\<close>, whose arguments are \<open>call e\<close>, whose \<^verbatim>\<open>int\<close> result is
  \<open>answer e\<close> and whose buffer was left as \<open>buffer e\<close>. The transport \<open>prim\<close>,
  the header values \<open>h\<close> and all arguments are arbitrary.
\<close>

subsection \<open>Addressing\<close>

text \<open>
  C1. For every 8-bit unit id, interface number and selector, each of the three
  unit-addressed operations \<^verbatim>\<open>uvc_get_ctrl_len\<close>, \<^verbatim>\<open>uvc_get_ctrl\<close> and \<^verbatim>\<open>uvc_set_ctrl\<close>
  calls the transfer primitive with \<^verbatim>\<open>wValue\<close> equal to the selector shifted left by 8
  and \<^verbatim>\<open>wIndex\<close> equal to the unit id shifted left by 8, or-ed with the interface
  number. The call is a call of the primitive: the event \<open>e\<close> is the answer of
  \<open>prim\<close> to these arguments in the device state before, the buffer is what
  \<open>prim\<close> stored over the one passed, and the device state after is the one
  \<open>prim\<close> produced.
\<close>

theorem unit_addressed_requests:
  "(let w' = snd (uvc_get_ctrl_len h prim devh unit ctrl buf w); e = last (transfers w')
    in transfers w' = transfers w @ [e] \<and>
       prim (call e) (device w) =
         ((answer e, snd (fst (prim (call e) (device w)))), device w') \<and>
       buffer e = stored (snd (fst (prim (call e) (device w)))) (data (call e)) \<and>
       wValue (call e) = push_bit 8 (ucast ctrl) \<and>
       wIndex (call e) =
         push_bit 8 (ucast unit) OR ucast (bInterfaceNumber (ctrl_if (info devh)))) \<and>
   (let w' = snd (uvc_get_ctrl h prim devh unit ctrl dat len req_code w);
        e = last (transfers w')
    in transfers w' = transfers w @ [e] \<and>
       prim (call e) (device w) =
         ((answer e, snd (fst (prim (call e) (device w)))), device w') \<and>
       buffer e = stored (snd (fst (prim (call e) (device w)))) (data (call e)) \<and>
       wValue (call e) = push_bit 8 (ucast ctrl) \<and>
       wIndex (call e) =
         push_bit 8 (ucast unit) OR ucast (bInterfaceNumber (ctrl_if (info devh)))) \<and>
   (let w' = snd (uvc_set_ctrl h prim devh unit ctrl dat len w); e = last (transfers w')
    in transfers w' = transfers w @ [e] \<and>
       prim (call e) (device w) =
         ((answer e, snd (fst (prim (call e) (device w)))), device w') \<and>
       buffer e = stored (snd (fst (prim (call e) (device w)))) (data (call e)) \<and>
       wValue (call e) = push_bit 8 (ucast ctrl) \<and>
       wIndex (call e) =
         push_bit 8 (ucast unit) OR ucast (bInterfaceNumber (ctrl_if (info devh))))"
  unfolding Let_def
  by (intro conjI)
    (simp_all add: uvc_get_ctrl_len_def uvc_get_ctrl_def uvc_set_ctrl_def
      libusb_control_transfer_eq shifted_byte unit_and_interface)

text \<open>
  C4. The VC error-code query and the two power-mode operations address the control
  interface only: \<^verbatim>\<open>wValue\<close> is the fixed control selector shifted into the high byte,
  \<^verbatim>\<open>wIndex\<close> is the number of the control interface alone, and the high byte of
  \<^verbatim>\<open>wIndex\<close>, where a unit id would go, is zero. Each of the three calls the
  primitive with these arguments: the event \<open>e\<close> is the answer of \<open>prim\<close> to
  them in the device state before, the buffer is what \<open>prim\<close> stored over the one
  passed, and the device state after is the one \<open>prim\<close> produced.
\<close>

theorem interface_addressed_requests:
  "(let w' = snd (snd (uvc_vc_get_error_code h prim devh error_code req_code w));
        e = last (transfers w')
    in transfers w' = transfers w @ [e] \<and>
       prim (call e) (device w) =
         ((answer e, snd (fst (prim (call e) (device w)))), device w') \<and>
       buffer e = stored (snd (fst (prim (call e) (device w)))) (data (call e)) \<and>
       wValue (call e) = push_bit 8 (word_of_int (UVC_VC_REQUEST_ERROR_CODE_CONTROL h)) \<and>
       wIndex (call e) = ucast (bInterfaceNumber (ctrl_if (info devh))) \<and>
       drop_bit 8 (wIndex (call e)) = 0) \<and>
   (let w' = snd (snd (uvc_get_power_mode h prim devh mode mode_char req_code w));
        e = last (transfers w')
    in transfers w' = transfers w @ [e] \<and>
       prim (call e) (device w) =
         ((answer e, snd (fst (prim (call e) (device w)))), device w') \<and>
       buffer e = stored (snd (fst (prim (call e) (device w)))) (data (call e)) \<and>
       wValue (call e) = push_bit 8 (word_of_int (UVC_VC_VIDEO_POWER_MODE_CONTROL h)) \<and>
       wIndex (call e) = ucast (bInterfaceNumber (ctrl_if (info devh))) \<and>
       drop_bit 8 (wIndex (call e)) = 0) \<and>
   (let w' = snd (uvc_set_power_mode h prim devh mode w); e = last (transfers w')
    in transfers w' = transfers w @ [e] \<and>
       prim (call e) (device w) =
         ((answer e, snd (fst (prim (call e) (device w)))), device w') \<and>
       buffer e = stored (snd (fst (prim (call e) (device w)))) (data (call e)) \<and>
       wValue (call e) = push_bit 8 (word_of_int (UVC_VC_VIDEO_POWER_MODE_CONTROL h)) \<and>
       wIndex (call e) = ucast (bInterfaceNumber (ctrl_if (info devh))) \<and>
       drop_bit 8 (wIndex (call e)) = 0)"
  unfolding Let_def
  by (intro conjI)
    (simp_all add: Let_def uvc_vc_get_error_code_def uvc_get_power_mode_def
      uvc_set_power_mode_def libusb_control_transfer_eq shifted_selector interface_alone
      high_byte_clear prod_eq_iff)

subsection \<open>Generic controls\<close>

text \<open>
  C8. For every input, \<^verbatim>\<open>uvc_get_ctrl\<close> and \<^verbatim>\<open>uvc_set_ctrl\<close> make exactly one call of the
  transfer primitive and return exactly what it returned, a byte count or a negative
  error code alike; the buffer comes back as the transfer left it. The event \<open>e\<close>
  is the answer of \<open>prim\<close> to the call in the device state before, and the device
  state after is the one \<open>prim\<close> produced.
\<close>

theorem generic_controls_pass_through:
  "(let ((r, dat'), w') = uvc_get_ctrl h prim devh unit ctrl dat len req_code w;
        e = last (transfers w')
    in transfers w' = transfers w @ [e] \<and>
       prim (call e) (device w) =
         ((answer e, snd (fst (prim (call e) (device w)))), device w') \<and>
       r = answer e \<and> dat' = buffer e) \<and>
   (let ((r, dat'), w') = uvc_set_ctrl h prim devh unit ctrl dat len w;
        e = last (transfers w')
    in transfers w' = transfers w @ [e] \<and>
       prim (call e) (device w) =
         ((answer e, snd (fst (prim (call e) (device w)))), device w') \<and>
       r = answer e \<and> dat' = buffer e)"
  unfolding Let_def
  by (intro conjI)
    (simp_all add: uvc_get_ctrl_def uvc_set_ctrl_def libusb_control_transfer_eq)





subsection \<open>Interface controls\<close>

text \<open>
  C2. For every device handle, every content of the caller's \<^verbatim>\<open>*error_code\<close> and every
  request code, \<^verbatim>\<open>uvc_vs_get_error_code\<close> returns \<^verbatim>\<open>UVC_ERROR_NOT_SUPPORTED\<close> and makes
  no call of the transfer primitive: the world, and with it the list of transfers, is
  the one it was given.
\<close>

theorem uvc_vs_get_error_code_not_supported:
  "fst (uvc_vs_get_error_code h devh error_code req_code w) = UVC_ERROR_NOT_SUPPORTED h \<and>
   snd (snd (uvc_vs_get_error_code h devh error_code req_code w)) = w \<and>
   transfers (snd (snd (uvc_vs_get_error_code h devh error_code req_code w))) = transfers w"
  by (simp add: uvc_vs_get_error_code_def)

text \<open>
  C3 asks that \<^verbatim>\<open>uvc_vc_get_error_code\<close> and \<^verbatim>\<open>uvc_get_power_mode\<close> report success, with
  the byte decoded, exactly when the transfer reports 1 byte, and a failure for every
  other count. Both return the transfer result itself in the other case
  (\<open>interface_controls_return\<close>), and \<^verbatim>\<open>UVC_SUCCESS\<close> is 0 in the headers: a transfer
  of zero bytes makes both return \<^verbatim>\<open>UVC_SUCCESS\<close> with nothing decoded, the caller's
  object still holding what it held (here 77).
\<close>

theorem zero_bytes_read_reported_as_success:
  "answer (last (transfers (snd (snd
      (uvc_vc_get_error_code libuvc_headers (answering 0 []) camera 77 0x81 idle))))) = 0 \<and>
   fst (uvc_vc_get_error_code libuvc_headers (answering 0 []) camera 77 0x81 idle)
     = UVC_SUCCESS libuvc_headers \<and>
   fst (snd (uvc_vc_get_error_code libuvc_headers (answering 0 []) camera 77 0x81 idle)) = 77 \<and>
   answer (last (transfers (snd (snd
      (uvc_get_power_mode libuvc_headers (answering 0 []) camera 77 0 0x81 idle))))) = 0 \<and>
   fst (uvc_get_power_mode libuvc_headers (answering 0 []) camera 77 0 0x81 idle)
     = UVC_SUCCESS libuvc_headers \<and>
   fst (snd (uvc_get_power_mode libuvc_headers (answering 0 []) camera 77 0 0x81 idle)) = 77"
  by (simp add: uvc_vc_get_error_code_def uvc_get_power_mode_def libusb_control_transfer_eq
      stored_def concrete_inputs)

text \<open>
  C10. Whenever the transfer reports anything other than exactly 1 byte,
  \<^verbatim>\<open>uvc_vc_get_error_code\<close> and \<^verbatim>\<open>uvc_get_power_mode\<close> leave the object behind the
  caller's pointer as it was; \<^verbatim>\<open>uvc_vs_get_error_code\<close> leaves it as it was on every
  input.
\<close>

theorem output_pointer_untouched:
  "(let (r, error_code', w') = uvc_vc_get_error_code h prim devh error_code req_code w;
        e = last (transfers w')
    in answer e \<noteq> 1 \<longrightarrow> error_code' = error_code) \<and>
   (let (r, mode', w') = uvc_get_power_mode h prim devh mode mode_char req_code w;
        e = last (transfers w')
    in answer e \<noteq> 1 \<longrightarrow> mode' = mode) \<and>
   fst (snd (uvc_vs_get_error_code h devh error_code req_code w)) = error_code"
  by (simp add: uvc_vc_get_error_code_def uvc_get_power_mode_def uvc_vs_get_error_code_def
      libusb_control_transfer_eq Let_def)

theorem output_pointer_untouched_witness:
  "answer (last (transfers (snd (snd
      (uvc_vc_get_error_code libuvc_headers (answering 2 [6, 7]) camera 77 0x81 idle))))) \<noteq> 1 \<and>
   fst (snd (uvc_vc_get_error_code libuvc_headers (answering 2 [6, 7]) camera 77 0x81 idle))
     = 77 \<and>
   answer (last (transfers (snd (snd
      (uvc_get_power_mode libuvc_headers (answering (- 1) []) camera 77 0 0x81 idle))))) \<noteq> 1 \<and>
   fst (snd (uvc_get_power_mode libuvc_headers (answering (- 1) []) camera 77 0 0x81 idle))
     = 77"
  using output_pointer_untouched
      [where h = libuvc_headers and prim = "answering 2 [6, 7]" and devh = camera
        and error_code = 77 and mode = 77 and mode_char = 0 and req_code = "0x81"
        and w = idle]
    output_pointer_untouched
      [where h = libuvc_headers and prim = "answering (- 1) []" and devh = camera
        and error_code = 77 and mode = 77 and mode_char = 0 and req_code = "0x81"
        and w = idle]
  by (simp add: uvc_vc_get_error_code_def uvc_get_power_mode_def libusb_control_transfer_eq
      stored_def concrete_inputs)

text \<open>
  C6 asks that \<^verbatim>\<open>uvc_set_power_mode\<close> send the numeric value of the mode as a payload of
  one byte and report success exactly when the transfer returns 1. The payload is as
  asked; but the function returns the transfer result itself when that is not 1
  (\<open>interface_controls_return\<close>), so that a transfer of zero bytes makes it return
  \<^verbatim>\<open>UVC_SUCCESS\<close>, which is 0 in the headers. Here the mode is
  \<^verbatim>\<open>UVC_VC_VIDEO_POWER_MODE_FULL\<close>.
\<close>

theorem zero_bytes_written_reported_as_success:
  "data (call (last (transfers (snd
      (uvc_set_power_mode libuvc_headers (answering 0 []) camera 0x0b idle))))) = [0x0b] \<and>
   answer (last (transfers (snd
      (uvc_set_power_mode libuvc_headers (answering 0 []) camera 0x0b idle)))) = 0 \<and>
   fst (uvc_set_power_mode libuvc_headers (answering 0 []) camera 0x0b idle)
     = UVC_SUCCESS libuvc_headers"
  by (simp add: uvc_set_power_mode_def libusb_control_transfer_eq stored_def concrete_inputs)




end
